theory Spec2Isabelle
  imports Main "HOL-Library.AList"
begin

section \<open>Values of the scheduler\<close>

text \<open>
  The exceptions that \<open>calculate_cpm\<close> of \<open>app.py\<close> can raise. The source names none of
  them; they are the faults of the Python operations it uses: \<open>int(s)\<close> on a string that
  is no integer literal (a ValueError), \<open>max\<close> of an empty list (a ValueError too), a
  dictionary lookup of an absent key, and a list index out of range.
\<close>

datatype error =
    ValueError_int string
  | ValueError_max
  | KeyError string
  | IndexError

text \<open>
  \<open>latest_start\<close> and \<open>latest_finish\<close> hold either a Python integer or the float
  \<open>float('inf')\<close> they are initialised with.
\<close>

datatype bound = Fin int | PosInf

text \<open>Python's \<open><\<close> between such values: integers compare exactly with the infinity.\<close>

fun bound_less :: "bound \<Rightarrow> bound \<Rightarrow> bool" where
  "bound_less (Fin x) (Fin y) = (x < y)"
| "bound_less (Fin x) PosInf = True"
| "bound_less PosInf b = False"

fun bound_le :: "bound \<Rightarrow> bound \<Rightarrow> bool" where
  "bound_le (Fin x) (Fin y) = (x \<le> y)"
| "bound_le b PosInf = True"
| "bound_le PosInf (Fin y) = False"

text \<open>\<open>min(a, b)\<close> keeps its first argument unless the second is smaller.\<close>

definition py_min :: "bound \<Rightarrow> bound \<Rightarrow> bound" where
  "py_min a b = (if bound_less b a then b else a)"

text \<open>
  \<open>x - d\<close> for an integer \<open>d\<close>. The infinity minus an integer is the infinity; the passes
  below subtract only after the left operand has been made finite.
\<close>

fun bound_sub :: "bound \<Rightarrow> int \<Rightarrow> bound" where
  "bound_sub (Fin x) d = Fin (x - d)"
| "bound_sub PosInf d = PosInf"

text \<open>\<open>max(xs)\<close> on a list of integers; it raises on the empty list.\<close>

fun py_max :: "int list \<Rightarrow> error + int" where
  "py_max [] = Inl ValueError_max"
| "py_max (x # xs) = Inr (fold (\<lambda>y m. if m < y then y else m) xs x)"

section \<open>Parsing the form fields\<close>

text \<open>
  \<open>int(s)\<close> for a string: surrounding whitespace is stripped, then an optional sign and
  decimal digits, where single underscores may stand between digits. Characters are read
  as code points below 256.
\<close>

definition is_space :: "char \<Rightarrow> bool" where
  "is_space c = ((of_char c :: nat) \<in> {9, 10, 11, 12, 13, 28, 29, 30, 31, 32, 133, 160})"

definition is_digit :: "char \<Rightarrow> bool" where
  "is_digit c = (48 \<le> (of_char c :: nat) \<and> (of_char c :: nat) \<le> 57)"

definition digit_value :: "char \<Rightarrow> nat" where
  "digit_value c = of_char c - 48"

definition strip :: "string \<Rightarrow> string" where
  "strip s = rev (dropWhile is_space (rev (dropWhile is_space s)))"

fun parse_digits :: "string \<Rightarrow> nat \<Rightarrow> nat option" where
  "parse_digits [] acc = Some acc"
| "parse_digits (c # cs) acc =
     (if is_digit c then parse_digits cs (10 * acc + digit_value c)
      else if c = CHR ''_'' \<and> (case cs of [] \<Rightarrow> False | c' # _ \<Rightarrow> is_digit c')
        then parse_digits cs acc
      else None)"

definition parse_nat :: "string \<Rightarrow> nat option" where
  "parse_nat s = (case s of [] \<Rightarrow> None
     | c # _ \<Rightarrow> if is_digit c then parse_digits s 0 else None)"

definition py_int :: "string \<Rightarrow> int option" where
  "py_int s = (case strip s of [] \<Rightarrow> None
     | c # cs \<Rightarrow>
         if c = CHR ''-'' then map_option (\<lambda>n. - int n) (parse_nat cs)
         else if c = CHR ''+'' then map_option int (parse_nat cs)
         else map_option int (parse_nat (c # cs)))"

text \<open>\<open>s.split(',')\<close>: the pieces between commas, empty pieces kept.\<close>

fun split_comma :: "string \<Rightarrow> string list" where
  "split_comma [] = [[]]"
| "split_comma (c # cs) =
     (if c = CHR '','' then [] # split_comma cs
      else (case split_comma cs of [] \<Rightarrow> [[c]] | w # ws \<Rightarrow> (c # w) # ws))"

section \<open>The activity dictionary\<close>

record activity =
  duration :: int
  predecessors :: "string list"
  earliest_start :: int
  earliest_finish :: int
  latest_start :: bound
  latest_finish :: bound

text \<open>
  \<open>activity_dict\<close> is a Python dictionary, which keeps its keys in insertion order: an
  association list, where storing under a present key replaces the value in place and
  storing under a new key appends (\<open>AList.update\<close>), and a lookup is \<open>map_of\<close>.
\<close>

type_synonym activity_dict = "(string \<times> activity) list"

text \<open>
  Lines 9 to 18: the loop over \<open>range(len(activities))\<close>. Each round reads
  \<open>durations[i]\<close>, converts it, reads \<open>predecessors[i]\<close> and stores the record.
\<close>

fun build_dict :: "string list \<Rightarrow> string list \<Rightarrow> string list \<Rightarrow> activity_dict
    \<Rightarrow> error + activity_dict" where
  "build_dict [] ds ps D = Inr D"
| "build_dict (a # as) ds ps D =
     (case ds of [] \<Rightarrow> Inl IndexError
      | d # ds' \<Rightarrow>
         (case py_int d of None \<Rightarrow> Inl (ValueError_int d)
          | Some n \<Rightarrow>
             (case ps of [] \<Rightarrow> Inl IndexError
              | p # ps' \<Rightarrow>
                 build_dict as ds' ps'
                   (AList.update a
                      \<lparr>duration = n,
                       predecessors = (if p \<noteq> [] then split_comma p else []),
                       earliest_start = 0,
                       earliest_finish = 0,
                       latest_start = PosInf,
                       latest_finish = PosInf\<rparr> D))))"

section \<open>Forward pass\<close>

text \<open>Line 26: the list of the predecessors' earliest finishes, read left to right.\<close>

fun es_times :: "activity_dict \<Rightarrow> string list \<Rightarrow> error + int list" where
  "es_times D [] = Inr []"
| "es_times D (p # ps) =
     (case map_of D p of None \<Rightarrow> Inl (KeyError p)
      | Some b \<Rightarrow>
         (case es_times D ps of Inl e \<Rightarrow> Inl e
          | Inr xs \<Rightarrow> Inr (earliest_finish b # xs)))"

text \<open>Lines 22 to 28: the body of the forward loop for the activity \<open>k\<close>.\<close>

definition forward_step :: "string \<Rightarrow> activity_dict \<Rightarrow> error + activity_dict" where
  "forward_step k D =
     (case map_of D k of None \<Rightarrow> Inl (KeyError k)
      | Some a \<Rightarrow>
         if predecessors a = [] then
           Inr (AList.update k (a\<lparr>earliest_start := 0, earliest_finish := duration a\<rparr>) D)
         else
           (case es_times D (predecessors a) of Inl e \<Rightarrow> Inl e
            | Inr xs \<Rightarrow>
               (case py_max xs of Inl e \<Rightarrow> Inl e
                | Inr es \<Rightarrow>
                   Inr (AList.update k
                          (a\<lparr>earliest_start := es, earliest_finish := es + duration a\<rparr>) D))))"

fun forward_pass :: "string list \<Rightarrow> activity_dict \<Rightarrow> error + activity_dict" where
  "forward_pass [] D = Inr D"
| "forward_pass (k # ks) D =
     (case forward_step k D of Inl e \<Rightarrow> Inl e | Inr D' \<Rightarrow> forward_pass ks D')"

section \<open>Backward pass\<close>

text \<open>
  Lines 33 to 35: an activity whose latest finish is still the infinity gets its own
  earliest finish; then its latest start is recomputed.
\<close>

definition anchor :: "string \<Rightarrow> activity_dict \<Rightarrow> error + activity_dict" where
  "anchor k D =
     (case map_of D k of None \<Rightarrow> Inl (KeyError k)
      | Some a \<Rightarrow>
         let lf = (if latest_finish a = PosInf then Fin (earliest_finish a)
                   else latest_finish a)
         in Inr (AList.update k
                   (a\<lparr>latest_finish := lf, latest_start := bound_sub lf (duration a)\<rparr>) D))"

text \<open>
  Lines 37 and 38: one round of the inner loop, for the predecessor \<open>p\<close> of the activity
  \<open>k\<close>. The latest start of \<open>k\<close> is read from the dictionary in every round.
\<close>

definition tighten :: "string \<Rightarrow> string \<Rightarrow> activity_dict \<Rightarrow> error + activity_dict" where
  "tighten k p D =
     (case map_of D p of None \<Rightarrow> Inl (KeyError p)
      | Some b \<Rightarrow>
         (case map_of D k of None \<Rightarrow> Inl (KeyError k)
          | Some a \<Rightarrow>
             let lf = py_min (latest_finish b) (latest_start a)
             in Inr (AList.update p
                       (b\<lparr>latest_finish := lf, latest_start := bound_sub lf (duration b)\<rparr>) D)))"

fun tighten_all :: "string \<Rightarrow> string list \<Rightarrow> activity_dict \<Rightarrow> error + activity_dict" where
  "tighten_all k [] D = Inr D"
| "tighten_all k (p # ps) D =
     (case tighten k p D of Inl e \<Rightarrow> Inl e | Inr D' \<Rightarrow> tighten_all k ps D')"

text \<open>Lines 33 to 38: the body of the backward loop for the activity \<open>k\<close>.\<close>

definition backward_step :: "string \<Rightarrow> activity_dict \<Rightarrow> error + activity_dict" where
  "backward_step k D =
     (case anchor k D of Inl e \<Rightarrow> Inl e
      | Inr D' \<Rightarrow>
         (case map_of D' k of None \<Rightarrow> Inl (KeyError k)
          | Some a \<Rightarrow> tighten_all k (predecessors a) D'))"

fun backward_pass :: "string list \<Rightarrow> activity_dict \<Rightarrow> error + activity_dict" where
  "backward_pass [] D = Inr D"
| "backward_pass (k # ks) D =
     (case backward_step k D of Inl e \<Rightarrow> Inl e | Inr D' \<Rightarrow> backward_pass ks D')"

section \<open>Critical path and the whole computation\<close>

text \<open>Lines 40 to 43: the keys, in the dictionary's order, whose two starts are equal.\<close>

definition is_critical :: "activity_dict \<Rightarrow> string \<Rightarrow> bool" where
  "is_critical D k =
     (case map_of D k of None \<Rightarrow> False
      | Some a \<Rightarrow> Fin (earliest_start a) = latest_start a)"

definition critical_path :: "activity_dict \<Rightarrow> string list" where
  "critical_path D = filter (is_critical D) (map fst D)"

definition calculate_cpm :: "string list \<Rightarrow> string list \<Rightarrow> string list
    \<Rightarrow> error + (string list \<times> activity_dict)" where
  "calculate_cpm activities durations preds =
     (case build_dict activities durations preds [] of Inl e \<Rightarrow> Inl e
      | Inr D0 \<Rightarrow>
         (case forward_pass (map fst D0) D0 of Inl e \<Rightarrow> Inl e
          | Inr D1 \<Rightarrow>
             (case backward_pass (rev (map fst D1)) D1 of Inl e \<Rightarrow> Inl e
              | Inr D2 \<Rightarrow> Inr (critical_path D2, D2))))"

text \<open>
  Lines 122 to 132: the request handler. What it hands to the result template is kept as
  \<open>Result_page\<close>; the other answer is the plain text of the \<open>else\<close> branch.
\<close>

datatype response =
    Result_page "string list" activity_dict
  | Error_text string

definition calculate :: "string list \<Rightarrow> string list \<Rightarrow> string list \<Rightarrow> error + response" where
  "calculate activities durations preds =
     (if length activities = length durations \<and> length durations = length preds then
        (case calculate_cpm activities durations preds of Inl e \<Rightarrow> Inl e
         | Inr (cpm_result, activity_details) \<Rightarrow>
             Inr (Result_page cpm_result activity_details))
      else Inr (Error_text ''Error: Mismatch in input lengths.''))"

section \<open>Scenario C\<close>

text \<open>
  Claim C5. Activities A (duration 2), B (duration 5), both without predecessors, and
  C (duration 3) after A and B: A gets earliest start 0, earliest finish 2 and latest
  start 3; B gets 0, 5 and latest start 0; C gets 5 and 8; the critical path is B, C.
\<close>

theorem scenario_C:
  "calculate_cpm [''A'', ''B'', ''C''] [''2'', ''5'', ''3''] ['''', '''', ''A,B''] =
   Inr ([''B'', ''C''],
      [(''A'', \<lparr>duration = 2, predecessors = [], earliest_start = 0,
           earliest_finish = 2, latest_start = Fin 3, latest_finish = Fin 5\<rparr>),
       (''B'', \<lparr>duration = 5, predecessors = [], earliest_start = 0,
           earliest_finish = 5, latest_start = Fin 0, latest_finish = Fin 5\<rparr>),
       (''C'', \<lparr>duration = 3, predecessors = [''A'', ''B''], earliest_start = 5,
           earliest_finish = 8, latest_start = Fin 5, latest_finish = Fin 8\<rparr>)])"
  by code_simp

end
